theory Spec2Isabelle
  imports Complex_Main "HOL-Library.Char_ord" "HOL-Library.List_Lexorder"
begin

section \<open>The storage layer of \<^verbatim>\<open>ethdb/badger.go\<close>\<close>

text \<open>
  The file wraps an embedded transactional key-value engine (badger) and a value codec
  (snappy). Neither library is part of the repository, so both are parameters of the
  embedding: the codec is a pair of functions, the engine is a state with the live entries
  and, for every call the wrapper makes, the failure the engine would answer with. The
  wrapper's own functions are translated statement by statement; Go's result pairs
  \<^verbatim>\<open>(value, error)\<close> stay pairs, with \<open>None\<close> for \<^verbatim>\<open>nil\<close>.

  A \<^verbatim>\<open>[]byte\<close> and a Go \<^verbatim>\<open>string\<close> are both byte sequences; a \<open>char\<close> of HOL
  is one byte, so both are \<open>string\<close> here and \<^verbatim>\<open>string(key)\<close>, \<^verbatim>\<open>[]byte(key)\<close> are the
  identity. The metrics timers and meters only record observations and never change a
  result; they are left out.
\<close>

type_synonym bytes = string

subsection \<open>Errors\<close>

text \<open>
  \<open>ErrKeyNotFound\<close> is \<^verbatim>\<open>badger.ErrKeyNotFound\<close>, \<open>ErrCorrupt\<close> is what
  \<^verbatim>\<open>snappy.Decode\<close> answers on a malformed block, \<open>ErrEngine m\<close> is any other error of
  the engine, with its message.
\<close>

datatype err = ErrKeyNotFound | ErrCorrupt | ErrEngine string

subsection \<open>The value codec (package snappy)\<close>

record snappy =
  Encode :: "bytes \<Rightarrow> bytes"
  Decode :: "bytes \<Rightarrow> err + bytes"

text \<open>The contract of the codec: decoding an encoded block gives the block back.\<close>

definition codec_ok :: "snappy \<Rightarrow> bool" where
  "codec_ok c = (\<forall>v. Decode c (Encode c v) = Inr v)"

subsection \<open>The engine (package badger)\<close>

text \<open>
  \<open>kv\<close> holds the live entries as they are stored. The fault fields say which calls the
  engine rejects and with what message: \<open>set_fault k v\<close> for \<^verbatim>\<open>txn.Set(k, v)\<close>,
  \<open>get_fault k\<close> for \<^verbatim>\<open>txn.Get(k)\<close> (other than key-not-found), \<open>value_fault k\<close> for
  \<^verbatim>\<open>item.Value()\<close> of the item under \<open>k\<close>, \<open>delete_fault k\<close> for \<^verbatim>\<open>txn.Delete(k)\<close>,
  \<open>commit_fault\<close> for the commit at the end of \<^verbatim>\<open>db.Update\<close>. \<open>delete_reports_missing\<close>
  says whether deleting an absent key answers \<open>ErrKeyNotFound\<close>: the wrapper is written for
  an engine that may.
\<close>

record engine =
  kv :: "bytes \<rightharpoonup> bytes"
  set_fault :: "bytes \<Rightarrow> bytes \<Rightarrow> string option"
  get_fault :: "bytes \<Rightarrow> string option"
  value_fault :: "bytes \<Rightarrow> string option"
  delete_fault :: "bytes \<Rightarrow> string option"
  commit_fault :: "string option"
  delete_reports_missing :: bool

text \<open>A transaction works on its own view of the entries; the commit installs the view.\<close>

record txn =
  tdb :: engine
  tview :: "bytes \<rightharpoonup> bytes"

record item =
  item_key :: bytes
  item_val :: bytes
  item_fault :: "string option"

definition NewTransaction :: "engine \<Rightarrow> txn" where
  "NewTransaction e = \<lparr>tdb = e, tview = kv e\<rparr>"

definition txn_Set :: "txn \<Rightarrow> bytes \<Rightarrow> bytes \<Rightarrow> txn \<times> err option" where
  "txn_Set t k v =
     (case set_fault (tdb t) k v of
        Some m \<Rightarrow> (t, Some (ErrEngine m))
      | None \<Rightarrow> (t\<lparr>tview := (tview t)(k \<mapsto> v)\<rparr>, None))"

definition txn_Get :: "txn \<Rightarrow> bytes \<Rightarrow> err + item" where
  "txn_Get t k =
     (case get_fault (tdb t) k of
        Some m \<Rightarrow> Inl (ErrEngine m)
      | None \<Rightarrow>
         (case tview t k of
            None \<Rightarrow> Inl ErrKeyNotFound
          | Some v \<Rightarrow> Inr \<lparr>item_key = k, item_val = v, item_fault = value_fault (tdb t) k\<rparr>))"

text \<open>
  \<^verbatim>\<open>txn.Get\<close> returns \<^verbatim>\<open>(item, err)\<close> with a nil item exactly when the error is not
  nil, hence the sum. The two projections below are the two tests the wrapper makes on
  the pair.
\<close>

definition item_not_nil :: "err + item \<Rightarrow> bool" where
  "item_not_nil r = (case r of Inl _ \<Rightarrow> False | Inr _ \<Rightarrow> True)"

definition err_of :: "err + 'a \<Rightarrow> err option" where
  "err_of r = (case r of Inl er \<Rightarrow> Some er | Inr _ \<Rightarrow> None)"

definition item_Value :: "item \<Rightarrow> err + bytes" where
  "item_Value i = (case item_fault i of Some m \<Rightarrow> Inl (ErrEngine m) | None \<Rightarrow> Inr (item_val i))"

definition txn_Delete :: "txn \<Rightarrow> bytes \<Rightarrow> txn \<times> err option" where
  "txn_Delete t k =
     (case delete_fault (tdb t) k of
        Some m \<Rightarrow> (t, Some (ErrEngine m))
      | None \<Rightarrow>
         (if delete_reports_missing (tdb t) \<and> tview t k = None then (t, Some ErrKeyNotFound)
          else (t\<lparr>tview := (tview t)(k := None)\<rparr>, None)))"

definition txn_Commit :: "engine \<Rightarrow> txn \<Rightarrow> engine \<times> err option" where
  "txn_Commit e t =
     (case commit_fault e of
        Some m \<Rightarrow> (e, Some (ErrEngine m))
      | None \<Rightarrow> (e\<lparr>kv := tview t\<rparr>, None))"

text \<open>
  \<^verbatim>\<open>db.Update(fn)\<close> runs \<open>fn\<close> in a fresh transaction; an error of \<open>fn\<close> discards the
  transaction and is returned, otherwise the transaction is committed. \<^verbatim>\<open>db.View(fn)\<close>
  runs \<open>fn\<close> in a transaction that is discarded afterwards; \<open>fn\<close> also hands back the
  variables of the caller it has assigned (\<open>'a\<close>).
\<close>

definition Update :: "engine \<Rightarrow> (txn \<Rightarrow> txn \<times> err option) \<Rightarrow> engine \<times> err option" where
  "Update e fn =
     (case fn (NewTransaction e) of
        (t, Some er) \<Rightarrow> (e, Some er)
      | (t, None) \<Rightarrow> txn_Commit e t)"

definition View :: "engine \<Rightarrow> (txn \<Rightarrow> 'a \<times> err option) \<Rightarrow> 'a \<times> err option" where
  "View e fn = fn (NewTransaction e)"

subsection \<open>BadgerDatabase\<close>

text \<open>\<^verbatim>\<open>Put\<close>: the value is encoded inside the transaction, then set.\<close>

definition BadgerDatabase_Put :: "snappy \<Rightarrow> engine \<Rightarrow> bytes \<Rightarrow> bytes \<Rightarrow> engine \<times> err option" where
  "BadgerDatabase_Put c e key val =
     Update e (\<lambda>t. let val' = Encode c val in txn_Set t key val')"

text \<open>
  \<^verbatim>\<open>Has\<close>: \<open>ret\<close> is the named result, false at entry; the callback sets it when the
  item is not nil, and clears both it and the error on key-not-found.
\<close>

definition BadgerDatabase_Has :: "engine \<Rightarrow> bytes \<Rightarrow> bool \<times> err option" where
  "BadgerDatabase_Has e key =
     View e (\<lambda>t.
       let r = txn_Get t key;
           ret = (if item_not_nil r then True else False);
           er = err_of r
       in if er = Some ErrKeyNotFound then (False, None) else (ret, er))"

text \<open>
  \<^verbatim>\<open>Get\<close>: \<open>dat\<close> is the named result, nil at entry. The callback leaves it nil when the
  engine fails; otherwise it copies the item's value (\<^verbatim>\<open>common.CopyBytes\<close>, the same bytes)
  and assigns \<open>dat\<close> what \<^verbatim>\<open>snappy.Decode\<close> returns for the copy (nil with an error).
  After the callback any error makes the function return \<^verbatim>\<open>nil, err\<close>.
\<close>

definition Get_fn :: "snappy \<Rightarrow> bytes \<Rightarrow> txn \<Rightarrow> bytes option \<times> err option" where
  "Get_fn c key t =
     (case txn_Get t key of
        Inl er \<Rightarrow> (None, Some er)
      | Inr itm \<Rightarrow>
         (case item_Value itm of
            Inl er \<Rightarrow> (None, Some er)
          | Inr val \<Rightarrow>
             (case Decode c val of
                Inl er \<Rightarrow> (None, Some er)
              | Inr dat \<Rightarrow> (Some dat, None))))"

definition BadgerDatabase_Get :: "snappy \<Rightarrow> engine \<Rightarrow> bytes \<Rightarrow> bytes option \<times> err option" where
  "BadgerDatabase_Get c e key =
     (case View e (Get_fn c key) of
        (dat, Some er) \<Rightarrow> (None, Some er)
      | (dat, None) \<Rightarrow> (dat, None))"

text \<open>\<^verbatim>\<open>Delete\<close>: key-not-found from the engine is turned into nil.\<close>

definition BadgerDatabase_Delete :: "engine \<Rightarrow> bytes \<Rightarrow> engine \<times> err option" where
  "BadgerDatabase_Delete e key =
     Update e (\<lambda>t.
       let (t', er) = txn_Delete t key
       in if er = Some ErrKeyNotFound then (t', None) else (t', er))"

subsection \<open>badgerIterator\<close>

text \<open>
  The engine's iterator walks a snapshot of the transaction's entries in the byte order of
  the keys. \<open>it_pos = None\<close> is the iterator before it has been positioned; a position
  past the last item is the exhausted iterator.
\<close>

text \<open>
  A method called on a nil item panics; every other call returns. \<open>and_then\<close> runs the
  next call on what the previous one returned, and panics when that one did.
\<close>

datatype 'a outcome = Panic | Return 'a

fun and_then :: "'a outcome \<Rightarrow> ('a \<Rightarrow> 'b outcome) \<Rightarrow> 'b outcome" where
  "and_then Panic f = Panic"
| "and_then (Return x) f = f x"

record Iterator =
  it_items :: "item list"
  it_pos :: "nat option"
  it_closed :: bool

definition txn_NewIterator :: "txn \<Rightarrow> Iterator" where
  "txn_NewIterator t =
     \<lparr>it_items =
        map (\<lambda>k. \<lparr>item_key = k, item_val = the (tview t k), item_fault = value_fault (tdb t) k\<rparr>)
          (sorted_list_of_set (dom (tview t))),
      it_pos = None, it_closed = False\<rparr>"

definition Iterator_Rewind :: "Iterator \<Rightarrow> Iterator" where
  "Iterator_Rewind i = i\<lparr>it_pos := Some 0\<rparr>"

definition Iterator_Seek :: "Iterator \<Rightarrow> bytes \<Rightarrow> Iterator" where
  "Iterator_Seek i key =
     i\<lparr>it_pos := Some (length (takeWhile (\<lambda>x. item_key x < key) (it_items i)))\<rparr>"

definition Iterator_Valid :: "Iterator \<Rightarrow> bool" where
  "Iterator_Valid i = (case it_pos i of None \<Rightarrow> False | Some n \<Rightarrow> n < length (it_items i))"

text \<open>
  \<^verbatim>\<open>Next()\<close> of the engine's iterator works on the current item: on an iterator that is
  not on an item (not positioned, or exhausted) the item is nil and the call panics.
\<close>

definition Iterator_Next :: "Iterator \<Rightarrow> Iterator outcome" where
  "Iterator_Next i =
     (if Iterator_Valid i then Return (i\<lparr>it_pos := map_option Suc (it_pos i)\<rparr>) else Panic)"

text \<open>\<^verbatim>\<open>Item()\<close>: the current item, nil when the iterator is not on one.\<close>

definition Iterator_Item :: "Iterator \<Rightarrow> item option" where
  "Iterator_Item i =
     (case it_pos i of
        None \<Rightarrow> None
      | Some n \<Rightarrow> if n < length (it_items i) then Some (it_items i ! n) else None)"

definition Iterator_Close :: "Iterator \<Rightarrow> Iterator" where
  "Iterator_Close i = i\<lparr>it_closed := True\<rparr>"

record badgerIterator =
  bi_txn :: txn
  internIterator :: Iterator
  released :: bool
  initialised :: bool

definition BadgerDatabase_NewIterator :: "engine \<Rightarrow> badgerIterator" where
  "BadgerDatabase_NewIterator e =
     (let t = NewTransaction e;
          i = txn_NewIterator t
      in \<lparr>bi_txn = t, internIterator = i, released = False, initialised = False\<rparr>)"

definition badgerIterator_Release :: "badgerIterator \<Rightarrow> badgerIterator" where
  "badgerIterator_Release it =
     it\<lparr>internIterator := Iterator_Close (internIterator it), released := True\<rparr>"

definition badgerIterator_Released :: "badgerIterator \<Rightarrow> bool" where
  "badgerIterator_Released it = released it"

definition badgerIterator_Next :: "badgerIterator \<Rightarrow> (badgerIterator \<times> bool) outcome" where
  "badgerIterator_Next it =
     (if \<not> initialised it
      then (let it' = it\<lparr>internIterator := Iterator_Rewind (internIterator it), initialised := True\<rparr>
            in Return (it', Iterator_Valid (internIterator it')))
      else and_then (Iterator_Next (internIterator it))
             (\<lambda>i. let it' = it\<lparr>internIterator := i\<rparr>
                  in Return (it', Iterator_Valid (internIterator it'))))"

definition badgerIterator_Seek :: "badgerIterator \<Rightarrow> bytes \<Rightarrow> badgerIterator" where
  "badgerIterator_Seek it key = it\<lparr>internIterator := Iterator_Seek (internIterator it) key\<rparr>"

definition badgerIterator_Key :: "badgerIterator \<Rightarrow> bytes outcome" where
  "badgerIterator_Key it =
     (case Iterator_Item (internIterator it) of
        None \<Rightarrow> Panic
      | Some i \<Rightarrow> Return (item_key i))"

text \<open>\<^verbatim>\<open>Value\<close>: nil (\<open>None\<close>) when the engine fails to read the value, else the stored bytes.\<close>

definition badgerIterator_Value :: "badgerIterator \<Rightarrow> bytes option outcome" where
  "badgerIterator_Value it =
     (case Iterator_Item (internIterator it) of
        None \<Rightarrow> Panic
      | Some i \<Rightarrow>
         (case item_Value i of
            Inl er \<Rightarrow> Return None
          | Inr val \<Rightarrow> Return (Some val)))"

subsection \<open>badgerBatch\<close>

text \<open>
  The accumulator \<^verbatim>\<open>b\<close> is a Go map from key to value, \<^verbatim>\<open>size\<close> a Go \<^verbatim>\<open>int\<close>
  (no claim depends on its overflow; it is an \<open>int\<close> here). \<^verbatim>\<open>Put\<close> stores a copy of
  the value and always returns nil.
\<close>

record badgerBatch =
  bb_b :: "bytes \<rightharpoonup> bytes"
  bb_size :: int

definition BadgerDatabase_NewBatch :: badgerBatch where
  "BadgerDatabase_NewBatch = \<lparr>bb_b = Map.empty, bb_size = 0\<rparr>"

definition badgerBatch_Put :: "badgerBatch \<Rightarrow> bytes \<Rightarrow> bytes \<Rightarrow> badgerBatch \<times> err option" where
  "badgerBatch_Put bb key val =
     (bb\<lparr>bb_b := (bb_b bb)(key \<mapsto> val), bb_size := bb_size bb + int (length val)\<rparr>, None)"

text \<open>
  The loop of \<^verbatim>\<open>Write\<close>. Go ranges over a map in an order it does not specify, so the
  order is an argument: \<open>order\<close> lists the keys as the loop meets them (a key the map does
  not hold is not met). \<open>er\<close> is the named result \<^verbatim>\<open>err\<close>, which every iteration
  assigns; the loop has no exit but the end of the map.
\<close>

fun Write_loop :: "snappy \<Rightarrow> (bytes \<rightharpoonup> bytes) \<Rightarrow> bytes list \<Rightarrow> txn \<Rightarrow> err option \<Rightarrow> txn \<times> err option" where
  "Write_loop c m [] t er = (t, er)"
| "Write_loop c m (key # rest) t er =
     (case m key of
        None \<Rightarrow> Write_loop c m rest t er
      | Some val \<Rightarrow>
         (let val' = Encode c val;
              (t', er') = txn_Set t key val'
          in Write_loop c m rest t' er'))"

definition badgerBatch_Write ::
  "snappy \<Rightarrow> bytes list \<Rightarrow> badgerBatch \<Rightarrow> engine \<Rightarrow> badgerBatch \<times> engine \<times> err option" where
  "badgerBatch_Write c order bb e =
     (let (e', er) = Update e (\<lambda>t. Write_loop c (bb_b bb) order t None)
      in (bb\<lparr>bb_size := 0, bb_b := Map.empty\<rparr>, e', er))"

definition badgerBatch_Discard :: "badgerBatch \<Rightarrow> badgerBatch" where
  "badgerBatch_Discard bb = bb\<lparr>bb_b := Map.empty, bb_size := 0\<rparr>"

definition badgerBatch_ValueSize :: "badgerBatch \<Rightarrow> int" where
  "badgerBatch_ValueSize bb = bb_size bb"

definition badgerBatch_Reset :: "badgerBatch \<Rightarrow> badgerBatch" where
  "badgerBatch_Reset bb = bb\<lparr>bb_b := Map.empty, bb_size := 0\<rparr>"

subsection \<open>The interfaces, table and tableBatch\<close>

text \<open>
  \<^verbatim>\<open>Database\<close> and \<^verbatim>\<open>Batch\<close> are interfaces; the file has two implementations of each.
  A value of the interface is either the engine's wrapper or a table around another value
  of the interface, and a method call dispatches on which. The \<open>table_\<close> and
  \<open>tableBatch_\<close> functions are the methods of \<^verbatim>\<open>table\<close> and \<^verbatim>\<open>tableBatch\<close>, given the
  two fields of the receiver.
\<close>

datatype database = BadgerDB string | Table database string

datatype batch = BadgerB badgerBatch | TableB batch string

definition NewTable :: "database \<Rightarrow> string \<Rightarrow> database" where
  "NewTable db prefix = Table db prefix"

fun Database_Put :: "snappy \<Rightarrow> database \<Rightarrow> engine \<Rightarrow> bytes \<Rightarrow> bytes \<Rightarrow> engine \<times> err option"
  and table_Put :: "snappy \<Rightarrow> database \<Rightarrow> string \<Rightarrow> engine \<Rightarrow> bytes \<Rightarrow> bytes \<Rightarrow> engine \<times> err option"
where
  "Database_Put c (BadgerDB fn) e key val = BadgerDatabase_Put c e key val"
| "Database_Put c (Table db prefix) e key val = table_Put c db prefix e key val"
| "table_Put c db prefix e key val = Database_Put c db e (prefix @ key) val"

fun Database_Has :: "database \<Rightarrow> engine \<Rightarrow> bytes \<Rightarrow> bool \<times> err option"
  and table_Has :: "database \<Rightarrow> string \<Rightarrow> engine \<Rightarrow> bytes \<Rightarrow> bool \<times> err option"
where
  "Database_Has (BadgerDB fn) e key = BadgerDatabase_Has e key"
| "Database_Has (Table db prefix) e key = table_Has db prefix e key"
| "table_Has db prefix e key = Database_Has db e (prefix @ key)"

fun Database_Get :: "snappy \<Rightarrow> database \<Rightarrow> engine \<Rightarrow> bytes \<Rightarrow> bytes option \<times> err option"
  and table_Get :: "snappy \<Rightarrow> database \<Rightarrow> string \<Rightarrow> engine \<Rightarrow> bytes \<Rightarrow> bytes option \<times> err option"
where
  "Database_Get c (BadgerDB fn) e key = BadgerDatabase_Get c e key"
| "Database_Get c (Table db prefix) e key = table_Get c db prefix e key"
| "table_Get c db prefix e key = Database_Get c db e (prefix @ key)"

fun Database_Delete :: "database \<Rightarrow> engine \<Rightarrow> bytes \<Rightarrow> engine \<times> err option"
  and table_Delete :: "database \<Rightarrow> string \<Rightarrow> engine \<Rightarrow> bytes \<Rightarrow> engine \<times> err option"
where
  "Database_Delete (BadgerDB fn) e key = BadgerDatabase_Delete e key"
| "Database_Delete (Table db prefix) e key = table_Delete db prefix e key"
| "table_Delete db prefix e key = Database_Delete db e (prefix @ key)"

fun Database_NewBatch :: "database \<Rightarrow> batch"
  and table_NewBatch :: "database \<Rightarrow> string \<Rightarrow> batch"
where
  "Database_NewBatch (BadgerDB fn) = BadgerB BadgerDatabase_NewBatch"
| "Database_NewBatch (Table db prefix) = table_NewBatch db prefix"
| "table_NewBatch db prefix = TableB (Database_NewBatch db) prefix"

definition NewTableBatch :: "database \<Rightarrow> string \<Rightarrow> batch" where
  "NewTableBatch db prefix = TableB (Database_NewBatch db) prefix"

fun Batch_Put :: "batch \<Rightarrow> bytes \<Rightarrow> bytes \<Rightarrow> batch \<times> err option"
  and tableBatch_Put :: "batch \<Rightarrow> string \<Rightarrow> bytes \<Rightarrow> bytes \<Rightarrow> batch \<times> err option"
where
  "Batch_Put (BadgerB bb) key val =
     (case badgerBatch_Put bb key val of (bb', er) \<Rightarrow> (BadgerB bb', er))"
| "Batch_Put (TableB inner prefix) key val = tableBatch_Put inner prefix key val"
| "tableBatch_Put inner prefix key val =
     (case Batch_Put inner (prefix @ key) val of (inner', er) \<Rightarrow> (TableB inner' prefix, er))"

fun Batch_Write :: "snappy \<Rightarrow> bytes list \<Rightarrow> batch \<Rightarrow> engine \<Rightarrow> batch \<times> engine \<times> err option"
  and tableBatch_Write :: "snappy \<Rightarrow> bytes list \<Rightarrow> batch \<Rightarrow> string \<Rightarrow> engine \<Rightarrow> batch \<times> engine \<times> err option"
where
  "Batch_Write c order (BadgerB bb) e =
     (case badgerBatch_Write c order bb e of (bb', e', er) \<Rightarrow> (BadgerB bb', e', er))"
| "Batch_Write c order (TableB inner prefix) e = tableBatch_Write c order inner prefix e"
| "tableBatch_Write c order inner prefix e =
     (case Batch_Write c order inner e of (inner', e', er) \<Rightarrow> (TableB inner' prefix, e', er))"

fun Batch_ValueSize :: "batch \<Rightarrow> int"
  and tableBatch_ValueSize :: "batch \<Rightarrow> string \<Rightarrow> int"
where
  "Batch_ValueSize (BadgerB bb) = badgerBatch_ValueSize bb"
| "Batch_ValueSize (TableB inner prefix) = tableBatch_ValueSize inner prefix"
| "tableBatch_ValueSize inner prefix = Batch_ValueSize inner"

fun Batch_Reset :: "batch \<Rightarrow> batch"
  and tableBatch_Reset :: "batch \<Rightarrow> string \<Rightarrow> batch"
where
  "Batch_Reset (BadgerB bb) = BadgerB (badgerBatch_Reset bb)"
| "Batch_Reset (TableB inner prefix) = tableBatch_Reset inner prefix"
| "tableBatch_Reset inner prefix = TableB (Batch_Reset inner) prefix"

text \<open>
  The accumulator a batch finally writes from: the one of the \<^verbatim>\<open>badgerBatch\<close> at the
  bottom of the wrappers. Its keys are the physical keys of the batch.
\<close>

fun accumulator :: "batch \<Rightarrow> badgerBatch" where
  "accumulator (BadgerB bb) = bb"
| "accumulator (TableB inner prefix) = accumulator inner"

text \<open>A caller putting a list of pairs into a batch, one \<^verbatim>\<open>Put\<close> after the other.\<close>

fun Batch_Puts :: "batch \<Rightarrow> (bytes \<times> bytes) list \<Rightarrow> batch" where
  "Batch_Puts bt [] = bt"
| "Batch_Puts bt ((key, val) # rest) = Batch_Puts (fst (Batch_Put bt key val)) rest"

subsection \<open>Garbage collection\<close>

text \<open>
  The two maintenance calls do not change the live entries; what matters is which calls
  reach the engine and what is logged. \<open>gc_calls\<close> is the trace of the calls, \<open>gc_log\<close>
  the log. A \<open>cycle\<close> is what the engine answers during one cycle: to
  \<^verbatim>\<open>PurgeOlderVersions()\<close> and, if asked, to \<^verbatim>\<open>RunValueLogGC\<close>. \<^verbatim>\<open>time.Duration\<close>
  counts nanoseconds.
\<close>

definition discardRatio :: rat where
  "discardRatio = 5 / 10"

definition Minute :: int where
  "Minute = 60 * 1000000000"

definition cgInterval :: int where
  "cgInterval = 10 * Minute"

datatype maint_call = PurgeOlderVersions | RunValueLogGC rat

datatype log_line = Info string | Error string err

record cycle =
  purge_answer :: "err option"
  gc_answer :: "err option"

record gc_state =
  gc_calls :: "maint_call list"
  gc_log :: "log_line list"

definition collectGarbage :: "cycle \<Rightarrow> gc_state \<Rightarrow> gc_state \<times> err option" where
  "collectGarbage cy s =
     (let s1 = s\<lparr>gc_calls := gc_calls s @ [PurgeOlderVersions]\<rparr>
      in case purge_answer cy of
           Some er \<Rightarrow> (s1, Some er)
         | None \<Rightarrow> (s1\<lparr>gc_calls := gc_calls s1 @ [RunValueLogGC discardRatio]\<rparr>, gc_answer cy))"

text \<open>One pass through the body of the loop of \<^verbatim>\<open>runGC\<close>, run when the ticker fires.\<close>

definition runGC_tick :: "cycle \<Rightarrow> gc_state \<Rightarrow> gc_state" where
  "runGC_tick cy s =
     (let s1 = s\<lparr>gc_log := gc_log s @ [Info ''Start garbage collecting...'']\<rparr>;
          (s2, er) = collectGarbage cy s1
      in case er of
           None \<Rightarrow> s2\<lparr>gc_log := gc_log s2 @ [Info ''Garbage collected'']\<rparr>
         | Some x \<Rightarrow> s2\<lparr>gc_log := gc_log s2 @ [Error ''Failed to collect garbage'' x]\<rparr>)"

text \<open>
  \<^verbatim>\<open>runGC\<close> creates a ticker of period \<open>cgInterval\<close> and never returns: it waits for
  a tick, runs the body, and waits again. Its state after the ticker has fired for the
  cycles \<open>cys\<close>, in this order, is \<open>runGC cys s\<close>.
\<close>

record ticker =
  period :: int

definition NewTicker :: "int \<Rightarrow> ticker" where
  "NewTicker d = \<lparr>period = d\<rparr>"

definition runGC_ticker :: ticker where
  "runGC_ticker = NewTicker cgInterval"

fun runGC :: "cycle list \<Rightarrow> gc_state \<Rightarrow> gc_state" where
  "runGC [] s = s"
| "runGC (cy # cys) s = runGC cys (runGC_tick cy s)"

subsection \<open>Notions used in the statements\<close>

text \<open>
  The cursor after \<open>n\<close> calls of \<^verbatim>\<open>Next\<close>, the results of the calls dropped, and the
  result of call number \<open>n + 1\<close>; both panic when one of the calls does.
\<close>

fun Next_times :: "nat \<Rightarrow> badgerIterator \<Rightarrow> badgerIterator outcome" where
  "Next_times 0 it = Return it"
| "Next_times (Suc n) it =
     and_then (Next_times n it) (\<lambda>it'. and_then (badgerIterator_Next it') (\<lambda>r. Return (fst r)))"

definition Next_answer :: "nat \<Rightarrow> badgerIterator \<Rightarrow> bool outcome" where
  "Next_answer n it =
     and_then (Next_times n it) (\<lambda>it'. and_then (badgerIterator_Next it') (\<lambda>r. Return (snd r)))"

text \<open>
  The orders in which a Go range can meet the keys of a map: every key once, in any order.
\<close>

definition range_order :: "(bytes \<rightharpoonup> bytes) \<Rightarrow> bytes list \<Rightarrow> bool" where
  "range_order m order = (distinct order \<and> set order = dom m)"

text \<open>
  What one reclaim cycle is expected to do, in the words of the specification: purge, then,
  unless the purge failed, collect the value log with ratio one half; the error of the
  cycle is the first failure; the cycle logs its start and then its success or its error.
\<close>

definition cycle_calls :: "cycle \<Rightarrow> maint_call list" where
  "cycle_calls cy =
     (if purge_answer cy = None then [PurgeOlderVersions, RunValueLogGC (1 / 2)]
      else [PurgeOlderVersions])"

definition cycle_error :: "cycle \<Rightarrow> err option" where
  "cycle_error cy = (case purge_answer cy of Some er \<Rightarrow> Some er | None \<Rightarrow> gc_answer cy)"

definition cycle_log :: "cycle \<Rightarrow> log_line list" where
  "cycle_log cy =
     [Info ''Start garbage collecting...'',
      case cycle_error cy of
        None \<Rightarrow> Info ''Garbage collected''
      | Some er \<Rightarrow> Error ''Failed to collect garbage'' er]"

subsection \<open>Concrete instances\<close>

text \<open>
  A codec that satisfies the contract: the block is the value behind a one-byte tag. An
  engine that never fails, over given entries; and one that, like badger, rejects a set
  with an empty key and is otherwise sound.
\<close>

fun frame_Decode :: "bytes \<Rightarrow> err + bytes" where
  "frame_Decode [] = Inl ErrCorrupt"
| "frame_Decode (t # v) = (if t = CHR 0x01 then Inr v else Inl ErrCorrupt)"

definition frame_codec :: snappy where
  "frame_codec = \<lparr>Encode = (\<lambda>v. CHR 0x01 # v), Decode = frame_Decode\<rparr>"

definition sound_engine :: "(bytes \<rightharpoonup> bytes) \<Rightarrow> engine" where
  "sound_engine m =
     \<lparr>kv = m, set_fault = (\<lambda>k v. None), get_fault = (\<lambda>k. None), value_fault = (\<lambda>k. None),
      delete_fault = (\<lambda>k. None), commit_fault = None, delete_reports_missing = False\<rparr>"

definition keyed_engine :: "(bytes \<rightharpoonup> bytes) \<Rightarrow> engine" where
  "keyed_engine m =
     (sound_engine m)\<lparr>set_fault := (\<lambda>k v. if k = [] then Some ''Key cannot be empty'' else None)\<rparr>"

text \<open>
  badger rejects the empty key on every call that takes a key: \<open>strict_engine\<close> does so
  for \<^verbatim>\<open>Get\<close> and \<^verbatim>\<open>Delete\<close> as well.
\<close>

definition strict_engine :: "(bytes \<rightharpoonup> bytes) \<Rightarrow> engine" where
  "strict_engine m =
     (keyed_engine m)
       \<lparr>get_fault := (\<lambda>k. if k = [] then Some ''Key cannot be empty'' else None),
        delete_fault := (\<lambda>k. if k = [] then Some ''Key cannot be empty'' else None)\<rparr>"


section \<open>Properties\<close>

subsection \<open>What the four operations of BadgerDatabase compute\<close>

lemma frame_codec_ok: "codec_ok frame_codec"
  by (simp add: codec_ok_def frame_codec_def)

lemma Put_result:
  "BadgerDatabase_Put c e k v =
     (case set_fault e k (Encode c v) of
        Some m \<Rightarrow> (e, Some (ErrEngine m))
      | None \<Rightarrow>
         (case commit_fault e of
            Some m \<Rightarrow> (e, Some (ErrEngine m))
          | None \<Rightarrow> (e\<lparr>kv := (kv e)(k \<mapsto> Encode c v)\<rparr>, None)))"
  by (simp add: BadgerDatabase_Put_def Update_def NewTransaction_def txn_Set_def txn_Commit_def
      split: option.splits)

lemma Get_result:
  "BadgerDatabase_Get c e k =
     (case get_fault e k of
        Some m \<Rightarrow> (None, Some (ErrEngine m))
      | None \<Rightarrow>
         (case kv e k of
            None \<Rightarrow> (None, Some ErrKeyNotFound)
          | Some w \<Rightarrow>
             (case value_fault e k of
                Some m \<Rightarrow> (None, Some (ErrEngine m))
              | None \<Rightarrow>
                 (case Decode c w of
                    Inl er \<Rightarrow> (None, Some er)
                  | Inr dat \<Rightarrow> (Some dat, None)))))"
  by (simp add: BadgerDatabase_Get_def View_def Get_fn_def NewTransaction_def txn_Get_def
      item_Value_def split: option.splits sum.splits)

lemma Has_result:
  "BadgerDatabase_Has e k =
     (case get_fault e k of
        Some m \<Rightarrow> (False, Some (ErrEngine m))
      | None \<Rightarrow> (kv e k \<noteq> None, None))"
  by (auto simp add: BadgerDatabase_Has_def View_def NewTransaction_def txn_Get_def
      item_not_nil_def err_of_def Let_def split: option.splits sum.splits)

lemma Delete_result:
  "BadgerDatabase_Delete e k =
     (case delete_fault e k of
        Some m \<Rightarrow> (e, Some (ErrEngine m))
      | None \<Rightarrow>
         (case commit_fault e of
            Some m \<Rightarrow> (e, Some (ErrEngine m))
          | None \<Rightarrow> (e\<lparr>kv := (kv e)(k := None)\<rparr>, None)))"
  by (auto simp add: BadgerDatabase_Delete_def Update_def NewTransaction_def txn_Delete_def
      txn_Commit_def Let_def fun_upd_idem split: option.splits)

subsection \<open>Put, then Get\<close>

text \<open>
  Claim C2. After a \<^verbatim>\<open>Put(k, v)\<close> that returned nil, the engine holds the encoded value
  under \<open>k\<close>, and \<^verbatim>\<open>Get(k)\<close> returns exactly \<open>v\<close> with a nil error: the round trip through
  the store, compression included, is the identity. The codec is one that satisfies its
  contract, and the engine does not fail on the read of \<open>k\<close>.
\<close>

theorem Put_then_Get:
  assumes "codec_ok c"
    and "BadgerDatabase_Put c e k v = (e', None)"
    and "get_fault e k = None" and "value_fault e k = None"
  shows "kv e' k = Some (Encode c v) \<and> BadgerDatabase_Get c e' k = (Some v, None)"
proof -
  from assms(2) have e': "e' = e\<lparr>kv := (kv e)(k \<mapsto> Encode c v)\<rparr>"
    by (simp add: Put_result split: option.splits)
  from assms(1) have "Decode c (Encode c v) = Inr v"
    by (simp add: codec_ok_def)
  with e' assms(3,4) show ?thesis
    by (simp add: Get_result)
qed

theorem Put_then_Get_witness:
  "codec_ok frame_codec \<and>
   BadgerDatabase_Put frame_codec (sound_engine Map.empty) ''k1'' ''v1''
     = (sound_engine [''k1'' \<mapsto> CHR 0x01 # ''v1''], None) \<and>
   BadgerDatabase_Get frame_codec (sound_engine [''k1'' \<mapsto> CHR 0x01 # ''v1'']) ''k1''
     = (Some ''v1'', None)"
proof -
  have p: "BadgerDatabase_Put frame_codec (sound_engine Map.empty) ''k1'' ''v1''
     = (sound_engine [''k1'' \<mapsto> CHR 0x01 # ''v1''], None)"
    by (simp add: Put_result sound_engine_def frame_codec_def)
  have g: "get_fault (sound_engine Map.empty) ''k1'' = None"
    by (simp add: sound_engine_def)
  have f: "value_fault (sound_engine Map.empty) ''k1'' = None"
    by (simp add: sound_engine_def)
  from Put_then_Get [OF frame_codec_ok p g f]
  have "BadgerDatabase_Get frame_codec (sound_engine [''k1'' \<mapsto> CHR 0x01 # ''v1'']) ''k1''
     = (Some ''v1'', None)" by (rule conjunct2)
  with frame_codec_ok p show ?thesis by (intro conjI)
qed

subsection \<open>Has\<close>

text \<open>
  Claim C4, as stated, fails: for an absent key the result is \<^verbatim>\<open>(false, nil)\<close> only when
  the engine answers key-not-found. The empty key is absent from the empty store, the
  engine rejects it with an error of its own, and \<^verbatim>\<open>Has\<close> returns that error.
\<close>

theorem Has_absent_key_engine_error:
  "kv (strict_engine Map.empty) '''' = None \<and>
   BadgerDatabase_Has (strict_engine Map.empty) '''' = (False, Some (ErrEngine ''Key cannot be empty'')) \<and>
   BadgerDatabase_Has (strict_engine Map.empty) '''' \<noteq> (False, None)"
  by (simp add: Has_result strict_engine_def keyed_engine_def sound_engine_def)

text \<open>
  Claim C4, amended. \<^verbatim>\<open>Has\<close> never returns the engine's key-not-found as an error:
  whenever the engine answers key-not-found, the result is \<^verbatim>\<open>(false, nil)\<close>. So for a key
  that is absent from the store and that the engine does not reject, the result is
  \<^verbatim>\<open>(false, nil)\<close>, and on such a read the boolean is true exactly when the store holds a
  live entry for the key. Any other error of the engine is returned, with false; for an
  absent key the boolean is false in every case.
\<close>

theorem Has_not_found_is_false:
  "snd (BadgerDatabase_Has e k) \<noteq> Some ErrKeyNotFound \<and>
   (txn_Get (NewTransaction e) k = Inl ErrKeyNotFound \<longrightarrow> BadgerDatabase_Has e k = (False, None)) \<and>
   (get_fault e k = None \<longrightarrow> kv e k = None \<longrightarrow> BadgerDatabase_Has e k = (False, None)) \<and>
   (get_fault e k = None \<longrightarrow> BadgerDatabase_Has e k = (kv e k \<noteq> None, None)) \<and>
   (get_fault e k = Some m \<longrightarrow> BadgerDatabase_Has e k = (False, Some (ErrEngine m))) \<and>
   (kv e k = None \<longrightarrow> fst (BadgerDatabase_Has e k) = False)"
proof (intro conjI impI)
  show "snd (BadgerDatabase_Has e k) \<noteq> Some ErrKeyNotFound"
    by (simp add: Has_result split: option.splits)
  show "BadgerDatabase_Has e k = (False, None)" if "txn_Get (NewTransaction e) k = Inl ErrKeyNotFound"
    using that
    by (simp add: BadgerDatabase_Has_def View_def item_not_nil_def err_of_def)
  show "BadgerDatabase_Has e k = (False, None)" if "get_fault e k = None" "kv e k = None"
    using that by (simp add: Has_result)
  show "BadgerDatabase_Has e k = (kv e k \<noteq> None, None)" if "get_fault e k = None"
    using that by (simp add: Has_result)
  show "BadgerDatabase_Has e k = (False, Some (ErrEngine m))" if "get_fault e k = Some m"
    using that by (simp add: Has_result)
  show "fst (BadgerDatabase_Has e k) = False" if "kv e k = None"
    using that by (simp add: Has_result split: option.splits)
qed

theorem Has_not_found_is_false_witness:
  "BadgerDatabase_Has (sound_engine [''k1'' \<mapsto> ''x'']) ''k2'' = (False, None) \<and>
   BadgerDatabase_Has (sound_engine [''k1'' \<mapsto> ''x'']) ''k1'' = (True, None)"
proof -
  have g: "get_fault (sound_engine [''k1'' \<mapsto> ''x'']) k = None" for k
    by (simp add: sound_engine_def)
  have a: "kv (sound_engine [''k1'' \<mapsto> ''x'']) ''k2'' = None"
    by (simp add: sound_engine_def)
  have b: "kv (sound_engine [''k1'' \<mapsto> ''x'']) ''k1'' \<noteq> None"
    by (simp add: sound_engine_def)
  note h = Has_not_found_is_false [of "sound_engine [''k1'' \<mapsto> ''x'']"]
  from h [of "''k2''"] g a
  have 1: "BadgerDatabase_Has (sound_engine [''k1'' \<mapsto> ''x'']) ''k2'' = (False, None)"
    by simp
  from h [of "''k1''"] g b
  have 2: "BadgerDatabase_Has (sound_engine [''k1'' \<mapsto> ''x'']) ''k1'' = (True, None)"
    by simp
  from 1 2 show ?thesis by (intro conjI)
qed

subsection \<open>Delete\<close>

text \<open>
  Claim C5, as stated, fails: \<^verbatim>\<open>Delete\<close> turns only key-not-found into nil. The empty
  key is absent from the empty store, the engine rejects it with an error of its own, and
  \<^verbatim>\<open>Delete\<close> returns that error.
\<close>

theorem Delete_absent_key_engine_error:
  "kv (strict_engine Map.empty) '''' = None \<and>
   BadgerDatabase_Delete (strict_engine Map.empty) ''''
     = (strict_engine Map.empty, Some (ErrEngine ''Key cannot be empty'')) \<and>
   snd (BadgerDatabase_Delete (strict_engine Map.empty) '''') \<noteq> None"
  by (simp add: Delete_result strict_engine_def keyed_engine_def sound_engine_def)

text \<open>
  Claim C5, amended. \<^verbatim>\<open>Delete\<close> never returns key-not-found. \<^verbatim>\<open>Delete\<close> of a key that
  is absent returns nil and leaves the store as it was, whether or not the engine reports
  the missing key, when the engine neither rejects the call nor fails the commit; an
  error with which the engine rejects the call is returned and the store stays as it was.
  After a \<^verbatim>\<open>Delete(k)\<close> that returned nil the key is gone and \<^verbatim>\<open>Has(k)\<close> returns false.
\<close>

theorem Delete_absent_and_Has:
  "snd (BadgerDatabase_Delete e k) \<noteq> Some ErrKeyNotFound \<and>
   (kv e k = None \<longrightarrow> delete_fault e k = None \<longrightarrow> commit_fault e = None \<longrightarrow>
      BadgerDatabase_Delete e k = (e, None)) \<and>
   (delete_fault e k = Some m \<longrightarrow> BadgerDatabase_Delete e k = (e, Some (ErrEngine m))) \<and>
   (BadgerDatabase_Delete e k = (e', None) \<longrightarrow>
      kv e' k = None \<and> fst (BadgerDatabase_Has e' k) = False \<and>
      (get_fault e k = None \<longrightarrow> BadgerDatabase_Has e' k = (False, None)))"
proof (intro conjI impI)
  show "snd (BadgerDatabase_Delete e k) \<noteq> Some ErrKeyNotFound"
    by (simp add: Delete_result split: option.splits)
  show "BadgerDatabase_Delete e k = (e, None)"
    if "kv e k = None" "delete_fault e k = None" "commit_fault e = None"
    using that by (simp add: Delete_result fun_upd_idem)
  show "BadgerDatabase_Delete e k = (e, Some (ErrEngine m))" if "delete_fault e k = Some m"
    using that by (simp add: Delete_result)
  assume d: "BadgerDatabase_Delete e k = (e', None)"
  then have e': "e' = e\<lparr>kv := (kv e)(k := None)\<rparr>"
    by (simp add: Delete_result split: option.splits)
  show "kv e' k = None" by (simp add: e')
  show "fst (BadgerDatabase_Has e' k) = False"
    by (simp add: e' Has_result split: option.splits)
  show "BadgerDatabase_Has e' k = (False, None)" if "get_fault e k = None"
    using that by (simp add: e' Has_result)
qed

theorem Delete_absent_and_Has_witness:
  "BadgerDatabase_Delete ((sound_engine Map.empty)\<lparr>delete_reports_missing := True\<rparr>) ''k1''
     = ((sound_engine Map.empty)\<lparr>delete_reports_missing := True\<rparr>, None) \<and>
   BadgerDatabase_Delete (sound_engine [''k1'' \<mapsto> ''x'']) ''k1'' = (sound_engine Map.empty, None) \<and>
   BadgerDatabase_Has (sound_engine Map.empty) ''k1'' = (False, None)"
proof -
  let ?e = "(sound_engine Map.empty)\<lparr>delete_reports_missing := True\<rparr>"
  have 1: "BadgerDatabase_Delete ?e ''k1'' = (?e, None)"
    using Delete_absent_and_Has [where e = ?e and k = "''k1''"]
    by (simp add: sound_engine_def)
  have 2: "BadgerDatabase_Delete (sound_engine [''k1'' \<mapsto> ''x'']) ''k1'' = (sound_engine Map.empty, None)"
    by (simp add: Delete_result sound_engine_def)
  have g: "get_fault (sound_engine [''k1'' \<mapsto> ''x'']) ''k1'' = None"
    by (simp add: sound_engine_def)
  from Delete_absent_and_Has [where e = "sound_engine [''k1'' \<mapsto> ''x'']" and k = "''k1''"
      and e' = "sound_engine Map.empty"] 2 g
  have 3: "BadgerDatabase_Has (sound_engine Map.empty) ''k1'' = (False, None)"
    by blast
  from 1 2 3 show ?thesis by (intro conjI)
qed

subsection \<open>Get on failure\<close>

lemma Database_Get_error_nil:
  "snd (Database_Get c db e k) \<noteq> None \<Longrightarrow> fst (Database_Get c db e k) = None"
  by (induction db arbitrary: k) (auto simp: Get_result split: option.splits sum.splits)

text \<open>
  Claim C10. Whenever \<^verbatim>\<open>Get\<close> returns an error that is not nil (the key is absent, the
  engine fails on the read, or the stored block does not decode), the value it returns is
  nil. This holds for the engine's wrapper and for any table around it.
\<close>

theorem Get_error_returns_nil:
  "(snd (BadgerDatabase_Get c e k) \<noteq> None \<longrightarrow> fst (BadgerDatabase_Get c e k) = None) \<and>
   (snd (Database_Get c db e k) \<noteq> None \<longrightarrow> fst (Database_Get c db e k) = None)"
proof (intro conjI impI)
  show "fst (BadgerDatabase_Get c e k) = None" if "snd (BadgerDatabase_Get c e k) \<noteq> None"
    using that by (simp add: BadgerDatabase_Get_def split: prod.splits option.splits)
  show "fst (Database_Get c db e k) = None" if "snd (Database_Get c db e k) \<noteq> None"
    using that by (rule Database_Get_error_nil)
qed

theorem Get_error_returns_nil_witness:
  "BadgerDatabase_Get frame_codec (sound_engine Map.empty) ''k1'' = (None, Some ErrKeyNotFound) \<and>
   BadgerDatabase_Get frame_codec (sound_engine [''k1'' \<mapsto> ''v1'']) ''k1'' = (None, Some ErrCorrupt) \<and>
   BadgerDatabase_Get frame_codec ((sound_engine [''k1'' \<mapsto> ''v1''])\<lparr>get_fault := \<lambda>k. Some ''disk''\<rparr>) ''k1''
     = (None, Some (ErrEngine ''disk''))"
proof -
  let ?e3 = "(sound_engine [''k1'' \<mapsto> ''v1''])\<lparr>get_fault := \<lambda>k. Some ''disk''\<rparr>"
  have s1: "snd (BadgerDatabase_Get frame_codec (sound_engine Map.empty) ''k1'') = Some ErrKeyNotFound"
    by (simp add: Get_result sound_engine_def)
  have s2: "snd (BadgerDatabase_Get frame_codec (sound_engine [''k1'' \<mapsto> ''v1'']) ''k1'') = Some ErrCorrupt"
    by (simp add: Get_result sound_engine_def frame_codec_def)
  have s3: "snd (BadgerDatabase_Get frame_codec ?e3 ''k1'') = Some (ErrEngine ''disk'')"
    by (simp add: Get_result sound_engine_def)
  note h = Get_error_returns_nil [of frame_codec _ "''k1''" "BadgerDB ''db''", THEN conjunct1, rule_format]
  have f1: "fst (BadgerDatabase_Get frame_codec (sound_engine Map.empty) ''k1'') = None"
    by (rule h) (simp add: s1)
  have f2: "fst (BadgerDatabase_Get frame_codec (sound_engine [''k1'' \<mapsto> ''v1'']) ''k1'') = None"
    by (rule h) (simp add: s2)
  have f3: "fst (BadgerDatabase_Get frame_codec ?e3 ''k1'') = None"
    by (rule h) (simp add: s3)
  from s1 f1 have 1: "BadgerDatabase_Get frame_codec (sound_engine Map.empty) ''k1'' = (None, Some ErrKeyNotFound)"
    by (simp add: prod_eq_iff)
  from s2 f2 have 2: "BadgerDatabase_Get frame_codec (sound_engine [''k1'' \<mapsto> ''v1'']) ''k1'' = (None, Some ErrCorrupt)"
    by (simp add: prod_eq_iff)
  from s3 f3 have 3: "BadgerDatabase_Get frame_codec ?e3 ''k1'' = (None, Some (ErrEngine ''disk''))"
    by (simp add: prod_eq_iff)
  from 1 2 3 show ?thesis by (intro conjI)
qed

subsection \<open>Batches\<close>

lemma Write_loop_no_entries: "Write_loop c Map.empty order t er = (t, er)"
  by (induction order) simp_all

lemma badgerBatch_Write_cleared:
  "fst (badgerBatch_Write c order bb e) = bb\<lparr>bb_size := 0, bb_b := Map.empty\<rparr>"
  by (simp add: badgerBatch_Write_def split: prod.splits)

lemma accumulator_Batch_Write:
  "accumulator (fst (Batch_Write c order bt e)) = (accumulator bt)\<lparr>bb_size := 0, bb_b := Map.empty\<rparr>"
proof (induction bt)
  case (BadgerB bb)
  show ?case using badgerBatch_Write_cleared [of c order bb e]
    by (auto split: prod.splits)
next
  case (TableB inner prefix)
  then show ?case by (auto split: prod.splits)
qed

lemma Batch_ValueSize_accumulator: "Batch_ValueSize bt = bb_size (accumulator bt)"
  by (induction bt) (simp_all add: badgerBatch_ValueSize_def)

lemma Batch_Write_accumulator:
  "snd (Batch_Write c order bt e) = snd (badgerBatch_Write c order (accumulator bt) e)"
  by (induction bt) (auto split: prod.splits)

lemma badgerBatch_Write_empty:
  "bb_b bb = Map.empty \<Longrightarrow> fst (snd (badgerBatch_Write c order bb e)) = e"
  by (simp add: badgerBatch_Write_def Update_def Write_loop_no_entries txn_Commit_def
      NewTransaction_def split: option.splits)

text \<open>
  Claim C6. When \<^verbatim>\<open>Write\<close> returns, with or without an error, the accumulator of the
  batch is empty and \<^verbatim>\<open>ValueSize()\<close> is 0, for a batch of the engine's wrapper and for a
  batch of any table. A second \<^verbatim>\<open>Write\<close> of the same batch therefore writes nothing: it
  leaves the engine as it finds it.
\<close>

theorem Write_clears_batch:
  "bb_b (accumulator (fst (Batch_Write c order bt e))) = Map.empty \<and>
   Batch_ValueSize (fst (Batch_Write c order bt e)) = 0 \<and>
   bb_b (fst (badgerBatch_Write c order bb e)) = Map.empty \<and>
   badgerBatch_ValueSize (fst (badgerBatch_Write c order bb e)) = 0 \<and>
   fst (snd (Batch_Write c order' (fst (Batch_Write c order bt e)) e')) = e'"
proof -
  have "fst (snd (Batch_Write c order' (fst (Batch_Write c order bt e)) e')) = e'"
    using Batch_Write_accumulator [of c order' "fst (Batch_Write c order bt e)" e']
      badgerBatch_Write_empty [of "accumulator (fst (Batch_Write c order bt e))" c order' e']
    by (simp add: accumulator_Batch_Write)
  then show ?thesis
    by (simp add: accumulator_Batch_Write Batch_ValueSize_accumulator badgerBatch_Write_cleared
        badgerBatch_ValueSize_def)
qed

text \<open>
  Claim C1. The claim asks that a \<^verbatim>\<open>Set\<close> failing inside the transaction makes the whole
  \<^verbatim>\<open>Write\<close> fail and commit nothing. The loop keeps only the error of the last entry it
  meets. Here the batch holds the empty key and the key \<open>a\<close>, and the engine rejects the
  empty key; the range may meet the two keys in either order. When the loop meets the
  empty key first, the failure is overwritten by the
  success of \<open>a\<close>: \<^verbatim>\<open>Write\<close> returns nil and \<open>a\<close> alone is committed. When it meets the
  empty key last, \<^verbatim>\<open>Write\<close> returns the error and commits nothing.
\<close>

theorem Write_masks_failed_Set:
  "range_order
     (bb_b (fst (badgerBatch_Put (fst (badgerBatch_Put BadgerDatabase_NewBatch '''' ''x'')) ''a'' ''y'')))
     ['''', ''a''] \<and>
   badgerBatch_Write frame_codec ['''', ''a'']
     (fst (badgerBatch_Put (fst (badgerBatch_Put BadgerDatabase_NewBatch '''' ''x'')) ''a'' ''y''))
     (keyed_engine Map.empty)
   = (\<lparr>bb_b = Map.empty, bb_size = 0\<rparr>, keyed_engine [''a'' \<mapsto> CHR 0x01 # ''y''], None) \<and>
   range_order
     (bb_b (fst (badgerBatch_Put (fst (badgerBatch_Put BadgerDatabase_NewBatch '''' ''x'')) ''a'' ''y'')))
     [''a'', ''''] \<and>
   badgerBatch_Write frame_codec [''a'', '''']
     (fst (badgerBatch_Put (fst (badgerBatch_Put BadgerDatabase_NewBatch '''' ''x'')) ''a'' ''y''))
     (keyed_engine Map.empty)
   = (\<lparr>bb_b = Map.empty, bb_size = 0\<rparr>, keyed_engine Map.empty, Some (ErrEngine ''Key cannot be empty''))"
proof -
  let ?bb = "fst (badgerBatch_Put (fst (badgerBatch_Put BadgerDatabase_NewBatch '''' ''x'')) ''a'' ''y'')"
  have bb: "?bb = \<lparr>bb_b = ['''' \<mapsto> ''x'', ''a'' \<mapsto> ''y''], bb_size = 2\<rparr>"
    by (simp add: badgerBatch_Put_def BadgerDatabase_NewBatch_def)
  have d: "dom (bb_b ?bb) = {'''', ''a''}"
    unfolding bb by auto
  have r1: "range_order (bb_b ?bb) ['''', ''a'']"
    unfolding range_order_def d by simp
  have r2: "range_order (bb_b ?bb) [''a'', '''']"
    unfolding range_order_def d by auto
  have w1: "badgerBatch_Write frame_codec ['''', ''a''] ?bb (keyed_engine Map.empty)
      = (\<lparr>bb_b = Map.empty, bb_size = 0\<rparr>, keyed_engine [''a'' \<mapsto> CHR 0x01 # ''y''], None)"
    unfolding bb
    by (simp add: badgerBatch_Write_def keyed_engine_def sound_engine_def frame_codec_def
        Update_def NewTransaction_def txn_Set_def txn_Commit_def)
  have w2: "badgerBatch_Write frame_codec [''a'', ''''] ?bb (keyed_engine Map.empty)
      = (\<lparr>bb_b = Map.empty, bb_size = 0\<rparr>, keyed_engine Map.empty,
         Some (ErrEngine ''Key cannot be empty''))"
    unfolding bb
    by (simp add: badgerBatch_Write_def keyed_engine_def sound_engine_def frame_codec_def
        Update_def NewTransaction_def txn_Set_def txn_Commit_def)
  from r1 w1 r2 w2 show ?thesis by (intro conjI)
qed

subsection \<open>Tables\<close>

lemma Batch_Put_TableB:
  "fst (Batch_Put (TableB inner p) k v) = TableB (fst (Batch_Put inner (p @ k) v)) p"
  by (simp split: prod.splits)

lemma Batch_Puts_TableB:
  "Batch_Puts (TableB inner p) kvs = TableB (Batch_Puts inner (map (\<lambda>(k, v). (p @ k, v)) kvs)) p"
proof (induction kvs arbitrary: inner)
  case Nil
  show ?case by simp
next
  case (Cons kv kvs)
  obtain k v where kv: "kv = (k, v)" by (cases kv)
  show ?case
    unfolding kv using Cons.IH [of "fst (Batch_Put inner (p @ k) v)"]
    by (simp add: Batch_Put_TableB del: Batch_Put.simps tableBatch_Put.simps)
qed

text \<open>
  Claim C3. \<^verbatim>\<open>Put\<close>, \<^verbatim>\<open>Get\<close>, \<^verbatim>\<open>Has\<close> and \<^verbatim>\<open>Delete\<close> of a table with prefix \<open>p\<close>, on
  the key \<open>k\<close>, are the same operation of the underlying store on the key \<open>p @ k\<close>. A batch
  of the table, after any list of puts, has accumulated exactly what a batch of the
  underlying store accumulates from the same puts with \<open>p\<close> in front of every key, and
  writing either batch has the same effect on the engine and returns the same error.
\<close>

theorem table_prefixes_keys:
  "Database_Put c (NewTable db p) e k v = Database_Put c db e (p @ k) v \<and>
   Database_Get c (NewTable db p) e k = Database_Get c db e (p @ k) \<and>
   Database_Has (NewTable db p) e k = Database_Has db e (p @ k) \<and>
   Database_Delete (NewTable db p) e k = Database_Delete db e (p @ k) \<and>
   accumulator (Batch_Puts (Database_NewBatch (NewTable db p)) kvs)
     = accumulator (Batch_Puts (Database_NewBatch db) (map (\<lambda>(k, v). (p @ k, v)) kvs)) \<and>
   snd (Batch_Write c order (Batch_Puts (Database_NewBatch (NewTable db p)) kvs) e)
     = snd (Batch_Write c order (Batch_Puts (Database_NewBatch db) (map (\<lambda>(k, v). (p @ k, v)) kvs)) e)"
proof -
  have acc: "accumulator (Batch_Puts (Database_NewBatch (NewTable db p)) kvs)
     = accumulator (Batch_Puts (Database_NewBatch db) (map (\<lambda>(k, v). (p @ k, v)) kvs))"
    by (simp add: NewTable_def Batch_Puts_TableB)
  have "snd (Batch_Write c order (Batch_Puts (Database_NewBatch (NewTable db p)) kvs) e)
     = snd (Batch_Write c order (Batch_Puts (Database_NewBatch db) (map (\<lambda>(k, v). (p @ k, v)) kvs)) e)"
    by (simp only: Batch_Write_accumulator acc)
  with acc show ?thesis by (simp add: NewTable_def)
qed

theorem table_prefixes_keys_witness:
  "Database_Put frame_codec (NewTable (BadgerDB ''db'') ''tbl-'') (sound_engine Map.empty) ''a'' ''1''
     = (sound_engine [''tbl-a'' \<mapsto> CHR 0x01 # ''1''], None) \<and>
   Database_Get frame_codec (NewTable (BadgerDB ''db'') ''tbl-'')
       (sound_engine [''tbl-a'' \<mapsto> CHR 0x01 # ''1'']) ''a''
     = BadgerDatabase_Get frame_codec (sound_engine [''tbl-a'' \<mapsto> CHR 0x01 # ''1'']) ''tbl-a'' \<and>
   BadgerDatabase_Get frame_codec (sound_engine [''tbl-a'' \<mapsto> CHR 0x01 # ''1'']) ''tbl-a''
     = (Some ''1'', None)"
proof -
  note h = table_prefixes_keys [of frame_codec "BadgerDB ''db''" "''tbl-''" _ "''a''" "''1''" "[]" "[]"]
  have "Database_Put frame_codec (NewTable (BadgerDB ''db'') ''tbl-'') (sound_engine Map.empty) ''a'' ''1''
     = Database_Put frame_codec (BadgerDB ''db'') (sound_engine Map.empty) (''tbl-'' @ ''a'') ''1''"
    using h [of "sound_engine Map.empty"] by (rule conjunct1)
  also have "\<dots> = (sound_engine [''tbl-a'' \<mapsto> CHR 0x01 # ''1''], None)"
    by (simp add: Put_result sound_engine_def frame_codec_def)
  finally have 1: "Database_Put frame_codec (NewTable (BadgerDB ''db'') ''tbl-'') (sound_engine Map.empty) ''a'' ''1''
     = (sound_engine [''tbl-a'' \<mapsto> CHR 0x01 # ''1''], None)" .
  have "Database_Get frame_codec (NewTable (BadgerDB ''db'') ''tbl-'')
       (sound_engine [''tbl-a'' \<mapsto> CHR 0x01 # ''1'']) ''a''
     = Database_Get frame_codec (BadgerDB ''db'') (sound_engine [''tbl-a'' \<mapsto> CHR 0x01 # ''1'']) (''tbl-'' @ ''a'')"
    using h [of "sound_engine [''tbl-a'' \<mapsto> CHR 0x01 # ''1'']"] by blast
  then have 2: "Database_Get frame_codec (NewTable (BadgerDB ''db'') ''tbl-'')
       (sound_engine [''tbl-a'' \<mapsto> CHR 0x01 # ''1'']) ''a''
     = BadgerDatabase_Get frame_codec (sound_engine [''tbl-a'' \<mapsto> CHR 0x01 # ''1'']) ''tbl-a''"
    by simp
  have 3: "BadgerDatabase_Get frame_codec (sound_engine [''tbl-a'' \<mapsto> CHR 0x01 # ''1'']) ''tbl-a''
     = (Some ''1'', None)"
    by (simp add: Get_result sound_engine_def frame_codec_def)
  from 1 2 3 show ?thesis by (intro conjI)
qed

subsection \<open>The cursor\<close>

lemma NewIterator_fields:
  "BadgerDatabase_NewIterator e =
     \<lparr>bi_txn = NewTransaction e, internIterator = txn_NewIterator (NewTransaction e),
      released = False, initialised = False\<rparr>"
  by (simp add: BadgerDatabase_NewIterator_def Let_def)

lemma length_snapshot: "length (it_items (txn_NewIterator (NewTransaction e))) = card (dom (kv e))"
  by (simp add: txn_NewIterator_def NewTransaction_def)

lemma Next_first:
  "\<not> initialised it \<Longrightarrow>
   badgerIterator_Next it
     = Return (it\<lparr>internIterator := (internIterator it)\<lparr>it_pos := Some 0\<rparr>, initialised := True\<rparr>,
               it_items (internIterator it) \<noteq> [])"
  by (simp add: badgerIterator_Next_def Iterator_Rewind_def Iterator_Valid_def)

lemma Next_later:
  "initialised it \<Longrightarrow> it_pos (internIterator it) = Some m \<Longrightarrow>
   m < length (it_items (internIterator it)) \<Longrightarrow>
   badgerIterator_Next it
     = Return (it\<lparr>internIterator := (internIterator it)\<lparr>it_pos := Some (Suc m)\<rparr>\<rparr>,
               Suc m < length (it_items (internIterator it)))"
  by (simp add: badgerIterator_Next_def Iterator_Next_def Iterator_Valid_def)

lemma Next_exhausted:
  "initialised it \<Longrightarrow> it_pos (internIterator it) = Some m \<Longrightarrow>
   \<not> m < length (it_items (internIterator it)) \<Longrightarrow> badgerIterator_Next it = Panic"
  by (simp add: badgerIterator_Next_def Iterator_Next_def Iterator_Valid_def)

lemma Next_times_Suc:
  "n \<le> card (dom (kv e)) \<Longrightarrow>
   Next_times (Suc n) (BadgerDatabase_NewIterator e) =
     Return ((BadgerDatabase_NewIterator e)
       \<lparr>internIterator := (txn_NewIterator (NewTransaction e))\<lparr>it_pos := Some n\<rparr>,
        initialised := True\<rparr>)"
proof (induction n)
  case 0
  have "\<not> initialised (BadgerDatabase_NewIterator e)"
    by (simp add: NewIterator_fields)
  from Next_first [OF this] show ?case
    by (simp add: NewIterator_fields)
next
  case (Suc n)
  let ?c = "(BadgerDatabase_NewIterator e)
       \<lparr>internIterator := (txn_NewIterator (NewTransaction e))\<lparr>it_pos := Some n\<rparr>,
        initialised := True\<rparr>"
  from Suc.prems have lt: "n < card (dom (kv e))" by simp
  then have ih: "Next_times (Suc n) (BadgerDatabase_NewIterator e) = Return ?c"
    using Suc.IH by simp
  have "badgerIterator_Next ?c
      = Return (?c\<lparr>internIterator := (internIterator ?c)\<lparr>it_pos := Some (Suc n)\<rparr>\<rparr>,
                Suc n < length (it_items (internIterator ?c)))"
    by (rule Next_later) (simp_all add: length_snapshot lt)
  then show ?case
    by (simp only: Next_times.simps(2) [of "Suc n"] ih and_then.simps) simp
qed

lemma Next_answer_inside:
  assumes "n \<le> card (dom (kv e))"
  shows "Next_answer n (BadgerDatabase_NewIterator e) = Return (n < card (dom (kv e)))"
proof (cases n)
  case 0
  have "\<not> initialised (BadgerDatabase_NewIterator e)"
    by (simp add: NewIterator_fields)
  from Next_first [OF this]
  have "Next_answer 0 (BadgerDatabase_NewIterator e)
      = Return (it_items (internIterator (BadgerDatabase_NewIterator e)) \<noteq> [])"
    by (simp add: Next_answer_def)
  moreover have "(it_items (internIterator (BadgerDatabase_NewIterator e)) \<noteq> [])
      = (0 < card (dom (kv e)))"
    using length_snapshot [of e] by (simp add: NewIterator_fields flip: length_greater_0_conv)
  ultimately show ?thesis by (simp add: 0)
next
  case (Suc j)
  let ?c = "(BadgerDatabase_NewIterator e)
       \<lparr>internIterator := (txn_NewIterator (NewTransaction e))\<lparr>it_pos := Some j\<rparr>,
        initialised := True\<rparr>"
  from assms Suc have lt: "j < card (dom (kv e))" by simp
  then have nt: "Next_times (Suc j) (BadgerDatabase_NewIterator e) = Return ?c"
    by (intro Next_times_Suc) simp
  have "badgerIterator_Next ?c
      = Return (?c\<lparr>internIterator := (internIterator ?c)\<lparr>it_pos := Some (Suc j)\<rparr>\<rparr>,
                Suc j < length (it_items (internIterator ?c)))"
    by (rule Next_later) (simp_all add: length_snapshot lt)
  then show ?thesis
    unfolding Suc Next_answer_def nt by (simp add: length_snapshot)
qed

lemma Next_answer_after_false:
  "Next_answer (Suc (card (dom (kv e)))) (BadgerDatabase_NewIterator e) = Panic"
proof -
  let ?c = "(BadgerDatabase_NewIterator e)
       \<lparr>internIterator := (txn_NewIterator (NewTransaction e))\<lparr>it_pos := Some (card (dom (kv e)))\<rparr>,
        initialised := True\<rparr>"
  have nt: "Next_times (Suc (card (dom (kv e)))) (BadgerDatabase_NewIterator e) = Return ?c"
    by (intro Next_times_Suc) simp
  have "badgerIterator_Next ?c = Panic"
    by (rule Next_exhausted [where m = "card (dom (kv e))"]) (simp_all add: length_snapshot)
  then show ?thesis
    unfolding Next_answer_def nt by simp
qed

lemma Key_after_Next:
  assumes "n < card (dom (kv e))"
  shows "and_then (Next_times (Suc n) (BadgerDatabase_NewIterator e)) badgerIterator_Key
      = Return (sorted_list_of_set (dom (kv e)) ! n)"
proof -
  from assms have "n \<le> card (dom (kv e))" by simp
  note nt = Next_times_Suc [OF this]
  from assms show ?thesis
    unfolding nt
    by (simp add: badgerIterator_Key_def Iterator_Item_def length_snapshot,
        simp add: txn_NewIterator_def NewTransaction_def)
qed

lemma Value_after_Next:
  assumes "n < card (dom (kv e))"
  shows "and_then (Next_times (Suc n) (BadgerDatabase_NewIterator e)) badgerIterator_Value
      = (case value_fault e (sorted_list_of_set (dom (kv e)) ! n) of
           Some m \<Rightarrow> Return None
         | None \<Rightarrow> Return (Some (the (kv e (sorted_list_of_set (dom (kv e)) ! n)))))"
proof -
  from assms have "n \<le> card (dom (kv e))" by simp
  note nt = Next_times_Suc [OF this]
  from assms show ?thesis
    unfolding nt
    by (simp add: badgerIterator_Value_def Iterator_Item_def length_snapshot,
        simp add: txn_NewIterator_def NewTransaction_def item_Value_def split: option.splits)
qed

text \<open>
  Claim C7, as stated, fails: not every later call of \<^verbatim>\<open>Next\<close> advances or returns
  false. On a cursor of the empty store the first call rewinds and returns false; the
  second call advances an engine iterator that is on no item, and panics.
\<close>

theorem Next_after_false_panics:
  "Next_answer 0 (BadgerDatabase_NewIterator (sound_engine Map.empty)) = Return False \<and>
   Next_answer 1 (BadgerDatabase_NewIterator (sound_engine Map.empty)) = Panic"
proof -
  have c: "card (dom (kv (sound_engine Map.empty))) = 0"
    by (simp add: sound_engine_def)
  have 1: "Next_answer 0 (BadgerDatabase_NewIterator (sound_engine Map.empty)) = Return False"
    using Next_answer_inside [of 0 "sound_engine Map.empty"] by (simp add: c)
  have 2: "Next_answer 1 (BadgerDatabase_NewIterator (sound_engine Map.empty)) = Panic"
    using Next_answer_after_false [of "sound_engine Map.empty"] by (simp add: c)
  from 1 2 show ?thesis by (intro conjI)
qed

text \<open>
  Claim C7, amended. On any cursor, the first call of \<^verbatim>\<open>Next\<close> rewinds the engine's
  iterator to position 0 and returns whether the snapshot has an entry; a later call made
  while the cursor is on an entry moves the iterator on by exactly one position and
  returns whether that position is still inside the snapshot. For a cursor of
  \<^verbatim>\<open>NewIterator\<close>, which starts unpositioned, every call up to and including the first
  that returns false returns: call number \<open>n + 1\<close> leaves the iterator on position \<open>n\<close>
  and returns true exactly when \<open>n\<close> is less than the number of entries, the key under
  the cursor then being the \<open>n\<close>-th key in byte order; after the first call it is the
  smallest key of the store. Calls after the one that returned false are left out.
\<close>

theorem Next_walks_snapshot:
  "(\<not> initialised it \<longrightarrow>
      badgerIterator_Next it
        = Return (it\<lparr>internIterator := (internIterator it)\<lparr>it_pos := Some 0\<rparr>, initialised := True\<rparr>,
                  it_items (internIterator it) \<noteq> [])) \<and>
   (initialised it \<longrightarrow> it_pos (internIterator it) = Some m \<longrightarrow>
    m < length (it_items (internIterator it)) \<longrightarrow>
      badgerIterator_Next it
        = Return (it\<lparr>internIterator := (internIterator it)\<lparr>it_pos := Some (Suc m)\<rparr>\<rparr>,
                  Suc m < length (it_items (internIterator it)))) \<and>
   it_pos (internIterator (BadgerDatabase_NewIterator e)) = None \<and>
   \<not> initialised (BadgerDatabase_NewIterator e) \<and>
   (n \<le> card (dom (kv e)) \<longrightarrow>
      (\<exists>it'. Next_times (Suc n) (BadgerDatabase_NewIterator e) = Return it' \<and>
             it_pos (internIterator it') = Some n \<and> initialised it') \<and>
      Next_answer n (BadgerDatabase_NewIterator e) = Return (n < card (dom (kv e)))) \<and>
   (n < card (dom (kv e)) \<longrightarrow>
      and_then (Next_times (Suc n) (BadgerDatabase_NewIterator e)) badgerIterator_Key
        = Return (sorted_list_of_set (dom (kv e)) ! n)) \<and>
   (finite (dom (kv e)) \<longrightarrow> kv e \<noteq> Map.empty \<longrightarrow>
      Next_answer 0 (BadgerDatabase_NewIterator e) = Return True \<and>
      and_then (Next_times 1 (BadgerDatabase_NewIterator e)) badgerIterator_Key
        = Return (Min (dom (kv e))))"
proof (intro conjI impI)
  let ?it0 = "BadgerDatabase_NewIterator e"
  show "badgerIterator_Next it
        = Return (it\<lparr>internIterator := (internIterator it)\<lparr>it_pos := Some 0\<rparr>, initialised := True\<rparr>,
                  it_items (internIterator it) \<noteq> [])" if "\<not> initialised it"
    using that by (rule Next_first)
  show "badgerIterator_Next it
        = Return (it\<lparr>internIterator := (internIterator it)\<lparr>it_pos := Some (Suc m)\<rparr>\<rparr>,
                  Suc m < length (it_items (internIterator it)))"
    if "initialised it" "it_pos (internIterator it) = Some m" "m < length (it_items (internIterator it))"
    using that by (rule Next_later)
  show "it_pos (internIterator ?it0) = None"
    by (simp add: NewIterator_fields txn_NewIterator_def)
  show "\<not> initialised ?it0"
    by (simp add: NewIterator_fields)
  show "\<exists>it'. Next_times (Suc n) ?it0 = Return it' \<and>
             it_pos (internIterator it') = Some n \<and> initialised it'" if "n \<le> card (dom (kv e))"
    using Next_times_Suc [OF that] by simp
  show "Next_answer n ?it0 = Return (n < card (dom (kv e)))" if "n \<le> card (dom (kv e))"
    using that by (rule Next_answer_inside)
  show "and_then (Next_times (Suc n) ?it0) badgerIterator_Key
        = Return (sorted_list_of_set (dom (kv e)) ! n)" if "n < card (dom (kv e))"
    using that by (rule Key_after_Next)
  assume fin: "finite (dom (kv e))" and ne: "kv e \<noteq> Map.empty"
  from ne have dne: "dom (kv e) \<noteq> {}" by simp
  with fin have pos: "0 < card (dom (kv e))" by (simp add: card_gt_0_iff)
  show "Next_answer 0 ?it0 = Return True"
    using Next_answer_inside [of 0 e] pos by simp
  have "sorted_list_of_set (dom (kv e)) ! 0 = Min (dom (kv e))"
    using sorted_list_of_set_nonempty [OF fin dne] by simp
  with Key_after_Next [OF pos]
  show "and_then (Next_times 1 ?it0) badgerIterator_Key = Return (Min (dom (kv e)))"
    by simp
qed

theorem Next_walks_snapshot_witness:
  "Next_answer 0 (BadgerDatabase_NewIterator (sound_engine [''b'' \<mapsto> ''2'', ''a'' \<mapsto> ''1''])) = Return True \<and>
   and_then (Next_times 1 (BadgerDatabase_NewIterator (sound_engine [''b'' \<mapsto> ''2'', ''a'' \<mapsto> ''1''])))
     badgerIterator_Key = Return ''a'' \<and>
   Next_answer 1 (BadgerDatabase_NewIterator (sound_engine [''b'' \<mapsto> ''2'', ''a'' \<mapsto> ''1''])) = Return True \<and>
   Next_answer 2 (BadgerDatabase_NewIterator (sound_engine [''b'' \<mapsto> ''2'', ''a'' \<mapsto> ''1''])) = Return False \<and>
   Next_answer 0 (BadgerDatabase_NewIterator (sound_engine Map.empty)) = Return False"
proof -
  let ?e = "sound_engine [''b'' \<mapsto> ''2'', ''a'' \<mapsto> ''1'']"
  let ?it0 = "BadgerDatabase_NewIterator ?e"
  have d: "dom (kv ?e) = {''a'', ''b''}"
    by (auto simp: sound_engine_def)
  have c: "card (dom (kv ?e)) = 2"
    by (simp add: d)
  have fin: "finite (dom (kv ?e))"
    by (simp add: d)
  have ne: "kv ?e \<noteq> Map.empty"
  proof
    assume "kv ?e = Map.empty"
    then have "dom (kv ?e) = {}" by simp
    with d show False by simp
  qed
  have mn: "Min (dom (kv ?e)) = ''a''"
    by (simp add: d min_def)
  note h = Next_walks_snapshot [where e = ?e and it = ?it0 and m = 0]
  from h [where n = 0] fin ne
  have ab: "Next_answer 0 ?it0 = Return True \<and>
      and_then (Next_times 1 ?it0) badgerIterator_Key = Return (Min (dom (kv ?e)))"
    by (elim conjE) (erule (1) impE [OF impE])
  then have 1: "Next_answer 0 ?it0 = Return True"
    by (rule conjunct1)
  from ab mn have 2: "and_then (Next_times 1 ?it0) badgerIterator_Key = Return ''a''"
    by simp
  have le1: "(1::nat) \<le> card (dom (kv ?e))" and le2: "(2::nat) \<le> card (dom (kv ?e))"
    by (simp_all add: c)
  from h [where n = 1] le1 have "Next_answer 1 ?it0 = Return (1 < card (dom (kv ?e)))"
    by blast
  with c have 3: "Next_answer 1 ?it0 = Return True" by simp
  from h [where n = 2] le2 have "Next_answer 2 ?it0 = Return (2 < card (dom (kv ?e)))"
    by blast
  with c have 4: "Next_answer 2 ?it0 = Return False" by simp
  have c0: "card (dom (kv (sound_engine Map.empty))) = 0"
    by (simp add: sound_engine_def)
  from Next_walks_snapshot [where e = "sound_engine Map.empty" and n = 0
      and it = "BadgerDatabase_NewIterator (sound_engine Map.empty)" and m = 0]
  have "Next_answer 0 (BadgerDatabase_NewIterator (sound_engine Map.empty))
      = Return (0 < card (dom (kv (sound_engine Map.empty))))"
    by blast
  with c0 have 5: "Next_answer 0 (BadgerDatabase_NewIterator (sound_engine Map.empty)) = Return False"
    by simp
  from 1 2 3 4 5 show ?thesis by (intro conjI)
qed

text \<open>
  Claim C8. The cursor hands out the bytes the engine stores, not the decoded value:
  after a \<^verbatim>\<open>Put(k, v)\<close> that returned nil, stepping a new cursor with \<^verbatim>\<open>Next\<close> reaches
  the key \<open>k\<close> without a panic, and \<^verbatim>\<open>Value()\<close> there is the encoded block \<open>Encode c v\<close>,
  whereas \<^verbatim>\<open>Get(k)\<close> returns \<open>v\<close> itself when the codec satisfies its contract. The
  store has finitely many entries and the engine does not fail on the reads of \<open>k\<close>.
\<close>

theorem cursor_Value_is_raw:
  assumes "BadgerDatabase_Put c e k v = (e', None)"
    and "finite (dom (kv e))" and "value_fault e k = None"
  shows "(\<exists>n. and_then (Next_times (Suc n) (BadgerDatabase_NewIterator e')) badgerIterator_Key
               = Return k \<and>
             and_then (Next_times (Suc n) (BadgerDatabase_NewIterator e')) badgerIterator_Value
               = Return (Some (Encode c v))) \<and>
         (codec_ok c \<longrightarrow> get_fault e k = None \<longrightarrow> BadgerDatabase_Get c e' k = (Some v, None))"
proof (intro conjI impI)
  from assms(1) have e': "e' = e\<lparr>kv := (kv e)(k \<mapsto> Encode c v)\<rparr>"
    by (simp add: Put_result split: option.splits)
  let ?ks = "sorted_list_of_set (dom (kv e'))"
  from assms(2) have fin: "finite (dom (kv e'))" by (simp add: e')
  have "k \<in> dom (kv e')" by (simp add: e')
  with fin have "k \<in> set ?ks" by simp
  then obtain n where n: "n < length ?ks" "?ks ! n = k"
    by (auto simp: in_set_conv_nth)
  from n(1) have lt: "n < card (dom (kv e'))" by simp
  have "and_then (Next_times (Suc n) (BadgerDatabase_NewIterator e')) badgerIterator_Key = Return k"
    using Key_after_Next [OF lt] n(2) by simp
  moreover have "and_then (Next_times (Suc n) (BadgerDatabase_NewIterator e')) badgerIterator_Value
      = Return (Some (Encode c v))"
    using Value_after_Next [OF lt] n(2) assms(3) by (simp add: e')
  ultimately show "\<exists>n. and_then (Next_times (Suc n) (BadgerDatabase_NewIterator e')) badgerIterator_Key
               = Return k \<and>
             and_then (Next_times (Suc n) (BadgerDatabase_NewIterator e')) badgerIterator_Value
               = Return (Some (Encode c v))"
    by blast
  assume "codec_ok c" and g: "get_fault e k = None"
  then have "Decode c (Encode c v) = Inr v" by (simp add: codec_ok_def)
  with g assms(3) show "BadgerDatabase_Get c e' k = (Some v, None)"
    by (simp add: e' Get_result)
qed

theorem cursor_Value_is_raw_witness:
  "(\<exists>n. and_then (Next_times (Suc n)
            (BadgerDatabase_NewIterator (sound_engine [''k1'' \<mapsto> CHR 0x01 # ''v1''])))
            badgerIterator_Key = Return ''k1'' \<and>
         and_then (Next_times (Suc n)
            (BadgerDatabase_NewIterator (sound_engine [''k1'' \<mapsto> CHR 0x01 # ''v1''])))
            badgerIterator_Value = Return (Some (CHR 0x01 # ''v1''))) \<and>
   BadgerDatabase_Get frame_codec (sound_engine [''k1'' \<mapsto> CHR 0x01 # ''v1'']) ''k1'' = (Some ''v1'', None)"
proof -
  have p: "BadgerDatabase_Put frame_codec (sound_engine Map.empty) ''k1'' ''v1''
     = (sound_engine [''k1'' \<mapsto> CHR 0x01 # ''v1''], None)"
    by (simp add: Put_result sound_engine_def frame_codec_def)
  have fin: "finite (dom (kv (sound_engine Map.empty)))"
    by (simp add: sound_engine_def)
  have f: "value_fault (sound_engine Map.empty) ''k1'' = None"
    by (simp add: sound_engine_def)
  have g: "get_fault (sound_engine Map.empty) ''k1'' = None"
    by (simp add: sound_engine_def)
  have en: "Encode frame_codec ''v1'' = CHR 0x01 # ''v1''"
    by (simp add: frame_codec_def)
  note h = cursor_Value_is_raw [OF p fin f, unfolded en]
  from h have 1: "\<exists>n. and_then (Next_times (Suc n)
            (BadgerDatabase_NewIterator (sound_engine [''k1'' \<mapsto> CHR 0x01 # ''v1''])))
            badgerIterator_Key = Return ''k1'' \<and>
         and_then (Next_times (Suc n)
            (BadgerDatabase_NewIterator (sound_engine [''k1'' \<mapsto> CHR 0x01 # ''v1''])))
            badgerIterator_Value = Return (Some (CHR 0x01 # ''v1''))"
    by (rule conjunct1)
  from h frame_codec_ok g
  have 2: "BadgerDatabase_Get frame_codec (sound_engine [''k1'' \<mapsto> CHR 0x01 # ''v1'']) ''k1'' = (Some ''v1'', None)"
    by blast
  from 1 2 show ?thesis by (intro conjI)
qed

subsection \<open>Garbage collection\<close>

lemma collectGarbage_result:
  "collectGarbage cy s = (s\<lparr>gc_calls := gc_calls s @ cycle_calls cy\<rparr>, cycle_error cy)"
  by (simp add: collectGarbage_def cycle_calls_def cycle_error_def discardRatio_def Let_def
      split: option.splits)

lemma runGC_tick_result:
  "runGC_tick cy s = s\<lparr>gc_calls := gc_calls s @ cycle_calls cy, gc_log := gc_log s @ cycle_log cy\<rparr>"
  by (simp add: runGC_tick_def collectGarbage_result cycle_log_def Let_def split: option.splits)

lemma runGC_result:
  "runGC cys s = s\<lparr>gc_calls := gc_calls s @ concat (map cycle_calls cys),
                  gc_log := gc_log s @ concat (map cycle_log cys)\<rparr>"
  by (induction cys arbitrary: s) (simp_all add: runGC_tick_result)

text \<open>
  Claim C9. One cycle calls the engine's purge and then, only when the purge succeeded,
  the value-log collection with discard ratio one half; its error is the purge's, else the
  collection's. The ticker of the loop has a period of ten minutes. After the ticker has
  fired for the cycles \<open>cys\<close>, the engine has seen exactly the calls of these cycles, in
  order, one purge per tick, and the log holds for each cycle its start and then its
  success or its error; the state is all that \<^verbatim>\<open>runGC\<close> produces, so no error reaches a
  caller, and a failed cycle is followed by nothing but the next tick's cycle.
\<close>

theorem reclaim_cycle:
  "(purge_answer cy = None \<longrightarrow>
      collectGarbage cy s
        = (s\<lparr>gc_calls := gc_calls s @ [PurgeOlderVersions, RunValueLogGC (1 / 2)]\<rparr>, gc_answer cy)) \<and>
   (purge_answer cy = Some er \<longrightarrow>
      collectGarbage cy s = (s\<lparr>gc_calls := gc_calls s @ [PurgeOlderVersions]\<rparr>, Some er)) \<and>
   period runGC_ticker = 10 * (60 * 1000000000) \<and>
   gc_calls (runGC cys s) = gc_calls s @ concat (map cycle_calls cys) \<and>
   gc_log (runGC cys s) = gc_log s @ concat (map cycle_log cys) \<and>
   length (filter (\<lambda>x. x = PurgeOlderVersions) (concat (map cycle_calls cys))) = length cys"
proof -
  have "length (filter (\<lambda>x. x = PurgeOlderVersions) (concat (map cycle_calls cys))) = length cys"
    by (induction cys) (simp_all add: cycle_calls_def)
  then show ?thesis
    by (simp add: collectGarbage_result runGC_result runGC_ticker_def NewTicker_def
        cgInterval_def Minute_def cycle_calls_def cycle_error_def)
qed

theorem reclaim_cycle_witness:
  "gc_calls (runGC [\<lparr>purge_answer = None, gc_answer = None\<rparr>,
                    \<lparr>purge_answer = Some (ErrEngine ''purge''), gc_answer = None\<rparr>,
                    \<lparr>purge_answer = None, gc_answer = Some (ErrEngine ''norewrite'')\<rparr>]
               \<lparr>gc_calls = [], gc_log = []\<rparr>)
     = [PurgeOlderVersions, RunValueLogGC (1 / 2), PurgeOlderVersions,
        PurgeOlderVersions, RunValueLogGC (1 / 2)] \<and>
   gc_log (runGC [\<lparr>purge_answer = None, gc_answer = None\<rparr>,
                  \<lparr>purge_answer = Some (ErrEngine ''purge''), gc_answer = None\<rparr>,
                  \<lparr>purge_answer = None, gc_answer = Some (ErrEngine ''norewrite'')\<rparr>]
               \<lparr>gc_calls = [], gc_log = []\<rparr>)
     = [Info ''Start garbage collecting...'', Info ''Garbage collected'',
        Info ''Start garbage collecting...'', Error ''Failed to collect garbage'' (ErrEngine ''purge''),
        Info ''Start garbage collecting...'', Error ''Failed to collect garbage'' (ErrEngine ''norewrite'')]"
proof -
  let ?cys = "[\<lparr>purge_answer = None, gc_answer = None\<rparr>,
               \<lparr>purge_answer = Some (ErrEngine ''purge''), gc_answer = None\<rparr>,
               \<lparr>purge_answer = None, gc_answer = Some (ErrEngine ''norewrite'')\<rparr>]"
  let ?s = "\<lparr>gc_calls = [], gc_log = []\<rparr>"
  note h = reclaim_cycle [of "\<lparr>purge_answer = None, gc_answer = None\<rparr>" ?s "ErrCorrupt" ?cys]
  from h have "gc_calls (runGC ?cys ?s) = gc_calls ?s @ concat (map cycle_calls ?cys)"
    by (elim conjE)
  also have "\<dots> = [PurgeOlderVersions, RunValueLogGC (1 / 2), PurgeOlderVersions,
        PurgeOlderVersions, RunValueLogGC (1 / 2)]"
    by (simp add: cycle_calls_def)
  finally have 1: "gc_calls (runGC ?cys ?s) = [PurgeOlderVersions, RunValueLogGC (1 / 2), PurgeOlderVersions,
        PurgeOlderVersions, RunValueLogGC (1 / 2)]" .
  from h have "gc_log (runGC ?cys ?s) = gc_log ?s @ concat (map cycle_log ?cys)"
    by (elim conjE)
  also have "\<dots> = [Info ''Start garbage collecting...'', Info ''Garbage collected'',
        Info ''Start garbage collecting...'', Error ''Failed to collect garbage'' (ErrEngine ''purge''),
        Info ''Start garbage collecting...'', Error ''Failed to collect garbage'' (ErrEngine ''norewrite'')]"
    by (simp add: cycle_log_def cycle_error_def)
  finally have 2: "gc_log (runGC ?cys ?s) = [Info ''Start garbage collecting...'', Info ''Garbage collected'',
        Info ''Start garbage collecting...'', Error ''Failed to collect garbage'' (ErrEngine ''purge''),
        Info ''Start garbage collecting...'', Error ''Failed to collect garbage'' (ErrEngine ''norewrite'')]" .
  from 1 2 show ?thesis by (intro conjI)
qed

end
